theory Spec2Isabelle
  imports Complex_Main "HOL-Library.AList"
begin

text \<open>
  The assessment engine of SelfAssessment: the speed test scorers, the result
  calculation, the validation code generator with the \<open>lock\<close> and \<open>update\<close> controllers of
  the backend, and the journal log wire format and the journal structure builder of the
  frontend. Every function is the source function of the same name; loops are
  recursive functions with the loop variables as arguments. A source name that is a
  keyword or a constant of the logic is changed: \<open>includes\<close> is \<open>str_includes\<close>, \<open>log\<close> is
  \<open>jlog\<close>, \<open>modulo\<close> is \<open>modulus\<close>, \<open>group\<close> is \<open>grp\<close>, and a loop variable \<open>set\<close> or \<open>map\<close> is
  \<open>tset\<close> or \<open>entry\<close>.
\<close>

section \<open>JavaScript values\<close>

text \<open>
  The answer values recorded in a journal log are JSON values. Numbers are modelled as
  integers (character offsets and counts are the only numbers the scorers read);
  \<open>JUndefined\<close> is what reading past the end of an array yields.
\<close>

datatype jsval =
    JNull
  | JUndefined
  | JBool bool
  | JNum int
  | JStr string
  | JArr "jsval list"

text \<open>Exceptions a function of the program can leave through.\<close>

datatype error =
    TypeError
  | MissingTestConfig
  | StorageError

section \<open>JavaScript string primitives\<close>

text \<open>
  Strings are character lists. The functions below are the \<open>String.prototype\<close> methods the
  program calls, with JavaScript's results on every argument (clamping, swapping,
  \<open>-1\<close> as \<open>None\<close>).
\<close>

fun starts_with :: "string \<Rightarrow> string \<Rightarrow> bool" where
  "starts_with s [] = True"
| "starts_with [] (p # ps) = False"
| "starts_with (c # cs) (p # ps) = (c = p \<and> starts_with cs ps)"

text \<open>\<open>s.indexOf(p)\<close>: the first position at which \<open>p\<close> occurs in \<open>s\<close>.\<close>

fun indexOf :: "string \<Rightarrow> string \<Rightarrow> nat option" where
  "indexOf [] p = (if p = [] then Some 0 else None)"
| "indexOf (c # cs) p =
     (if starts_with (c # cs) p then Some 0 else map_option Suc (indexOf cs p))"

definition str_includes :: "string \<Rightarrow> string \<Rightarrow> bool" where
  "str_includes s p = (indexOf s p \<noteq> None)"

text \<open>
  \<open>s.search(p)\<close> compiles the string \<open>p\<close> to a regular expression. For a pattern without
  regular-expression metacharacters, which is the case modelled here, the match is the
  first occurrence of \<open>p\<close>; \<open>None\<close> stands for \<open>-1\<close>. A pattern that holds a
  metacharacter is outside this model: in the code \<open>.\<close> matches any character and a
  pattern such as \<open>?\<close> makes the constructor throw a \<open>SyntaxError\<close>. The results below
  that evaluate \<open>search\<close> do so on patterns of letters and the colon only.
\<close>

definition search :: "string \<Rightarrow> string \<Rightarrow> nat option" where
  "search s p = indexOf s p"

text \<open>\<open>s.slice(n)\<close> for \<open>n \<ge> 0\<close>.\<close>

definition slice :: "string \<Rightarrow> nat \<Rightarrow> string" where
  "slice s n = drop n s"

text \<open>\<open>s.substring(a, b)\<close>: both ends are clamped to \<open>[0, length]\<close> and swapped when out
  of order.\<close>

definition substring :: "string \<Rightarrow> int \<Rightarrow> int \<Rightarrow> string" where
  "substring s a b =
     (let len = int (length s);
          a' = min (max a 0) len;
          b' = min (max b 0) len;
          lo = min a' b';
          hi = max a' b'
      in take (nat (hi - lo)) (drop (nat lo) s))"

text \<open>\<open>s.substr(start, n)\<close> for \<open>start \<ge> 0\<close>: at most \<open>n\<close> characters from \<open>start\<close>.\<close>

definition substr :: "string \<Rightarrow> nat \<Rightarrow> nat \<Rightarrow> string" where
  "substr s start n = take n (drop start s)"

text \<open>\<open>s.replace(p, r)\<close> with a string pattern and a replacement taken literally (a
  function's result, or a string without \<open>$\<close>): the first occurrence only.\<close>

definition replace :: "string \<Rightarrow> string \<Rightarrow> string \<Rightarrow> string" where
  "replace s p r =
     (case indexOf s p of
        None \<Rightarrow> s
      | Some i \<Rightarrow> take i s @ r @ drop (i + length p) s)"

definition is_digit :: "char \<Rightarrow> bool" where
  "is_digit c = (c \<in> set ''0123456789'')"

definition digit_value :: "char \<Rightarrow> int" where
  "digit_value c = int (of_char c) - 48"

text \<open>
  The white space and line terminator characters that \<open>parseInt\<close> and \<open>Number\<close> skip,
  among the characters up to \<open>U+00FF\<close> that a \<^typ>\<open>char\<close> can hold: tab, line feed,
  vertical tab, form feed, carriage return, space and the no-break space \<open>U+00A0\<close>.
\<close>

definition is_whitespace :: "char \<Rightarrow> bool" where
  "is_whitespace c = (of_char c \<in> {9, 10, 11, 12, 13, 32, 160 :: nat})"

text \<open>
  \<open>parseInt(s, 10)\<close>: leading white space is skipped, one sign is read, and the longest
  run of decimal digits is the value; \<open>None\<close> stands for \<open>NaN\<close> (no digit).
\<close>

definition parseInt :: "string \<Rightarrow> int option" where
  "parseInt s =
     (let t = dropWhile is_whitespace s;
          neg = (t \<noteq> [] \<and> hd t = CHR ''-'');
          u = (if t \<noteq> [] \<and> (hd t = CHR ''-'' \<or> hd t = CHR ''+'') then tl t else t);
          z = takeWhile is_digit u
      in if z = [] then None
         else let v = foldl (\<lambda>n c. 10 * n + digit_value c) 0 z
              in Some (if neg then - v else v))"

section \<open>Speed test scorers\<close>

text \<open>The result object of every \<open>calculateResult\<close>.\<close>

record score_result =
  score :: nat
  correct :: "nat list"
  wrong :: "nat list"

text \<open>
  An option of a speed test configuration that passed the schema: \<open>text\<close>, \<open>correct\<close> and
  \<open>index\<close> are strings (the first variant's schema asks for \<open>text\<close> and \<open>correct\<close> and
  tolerates \<open>index\<close>; the second asks for all three).
\<close>

record speed_option =
  opt_text :: string
  opt_correct :: string
  opt_index :: string

subsection \<open>The substring-inclusion variant (src/unnamed/part_001)\<close>



subsection \<open>The occurrence/index variant (testmodels/abstract.js, second part)\<close>

text \<open>
  The \<open>while (index !== -1)\<close> loop. It shortens \<open>searchString\<close> by
  \<open>index + correctOption.length\<close> each round and stops at the first failed search; on an
  empty \<open>correctOption\<close> the string never gets shorter and the loop does not return,
  which is the value \<open>None\<close>.
\<close>

partial_function (option) find_occurences ::
  "string \<Rightarrow> string \<Rightarrow> (nat \<times> nat) list \<Rightarrow> (nat \<times> nat) list option" where
  "find_occurences searchString correctOption occurences =
     (case search searchString correctOption of
        None \<Rightarrow> Some occurences
      | Some index \<Rightarrow>
          find_occurences (slice searchString (index + length correctOption)) correctOption
            (occurences @ [(index, index + length correctOption)]))"

declare find_occurences.simps [code]

text \<open>The \<open>for\<close> loop over \<open>occurences\<close>: the last occurrence the selection covers, or \<open>-1\<close>.\<close>

definition selected_occurence :: "int \<Rightarrow> int \<Rightarrow> (nat \<times> nat) list \<Rightarrow> int" where
  "selected_occurence userSelectionStart userSelectionEnd occurences =
     fold (\<lambda>i selectedOccurence.
             if userSelectionStart \<le> int (fst (occurences ! i))
                \<and> userSelectionEnd \<ge> int (snd (occurences ! i))
             then int i else selectedOccurence)
       [0 ..< length occurences] (- 1)"

text \<open>\<open>a[i]\<close> on an array: \<open>undefined\<close> past its end.\<close>

definition js_nth :: "jsval list \<Rightarrow> nat \<Rightarrow> jsval" where
  "js_nth xs i = (if i < length xs then xs ! i else JUndefined)"

datatype entry_outcome = Skipped | Awarded | NotAwarded

text \<open>One round of the scoring loop, up to what it does to \<open>result\<close>.\<close>

definition score_entry :: "speed_option \<Rightarrow> jsval \<Rightarrow> entry_outcome option" where
  "score_entry opt log_i =
     (let correctOption = opt_correct opt;
          correctOptionIndex = parseInt (opt_index opt)
      in case log_i of
           JArr xs \<Rightarrow>
             (case correctOptionIndex of
                None \<Rightarrow> Some Skipped
              | Some idx \<Rightarrow>
                  (case (js_nth xs 0, js_nth xs 1) of
                     (JNum userSelectionStart, JNum userSelectionEnd) \<Rightarrow>
                       if userSelectionStart = - 1 \<or> userSelectionEnd = - 1 then Some Skipped
                       else
                         let selectedText =
                               substring (opt_text opt) userSelectionStart userSelectionEnd
                         in (case find_occurences (opt_text opt) correctOption [] of
                               None \<Rightarrow> None
                             | Some occurences \<Rightarrow>
                                 if str_includes selectedText correctOption
                                    \<and> selected_occurence userSelectionStart userSelectionEnd
                                          occurences = idx
                                 then Some Awarded else Some NotAwarded)
                   | _ \<Rightarrow> Some Skipped))
         | _ \<Rightarrow> Some Skipped)"

fun speed_loop ::
  "speed_option list \<Rightarrow> nat \<Rightarrow> jsval list \<Rightarrow> score_result \<Rightarrow> (error + score_result) option" where
  "speed_loop testOptions i [] result = Some (Inr result)"
| "speed_loop testOptions i (log_i # rest) result =
     (if length testOptions \<le> i then Some (Inl TypeError)
      else
        case score_entry (testOptions ! i) log_i of
          None \<Rightarrow> None
        | Some Skipped \<Rightarrow> speed_loop testOptions (Suc i) rest result
        | Some Awarded \<Rightarrow>
            speed_loop testOptions (Suc i) rest
              (result\<lparr>correct := correct result @ [i], score := score result + 1\<rparr>)
        | Some NotAwarded \<Rightarrow>
            speed_loop testOptions (Suc i) rest (result\<lparr>wrong := wrong result @ [i]\<rparr>))"

definition SpeedTest_calculateResult ::
  "speed_option list \<Rightarrow> jsval list \<Rightarrow> (error + score_result) option" where
  "SpeedTest_calculateResult testOptions jlog =
     speed_loop testOptions 0 jlog \<lparr>score = 0, correct = [], wrong = []\<rparr>"





text \<open>The speed test of the specification's example: the second colon of \<open>ab:cd:ef\<close>.\<close>

definition colon_test :: "speed_option list" where
  "colon_test = [\<lparr>opt_text = ''ab:cd:ef'', opt_correct = '':'', opt_index = ''1''\<rparr>]"


subsection \<open>Properties of the scorers\<close>

lemma colon_occurences: "find_occurences ''ab:cd:ef'' '':'' [] = Some [(2, 3), (2, 3)]"
  by (simp add: find_occurences.simps search_def slice_def)

lemmas speed_eval_defs =
  SpeedTest_calculateResult_def score_entry_def parseInt_def is_whitespace_def is_digit_def
  digit_value_def js_nth_def substring_def str_includes_def selected_occurence_def upt_rec

text \<open>
  C1. What \<open>calculateResult\<close> returns on the one-option test \<open>ab:cd:ef\<close> / \<open>:\<close> / index 1
  for the three spans of the claim. Each search runs on the rest of the text left by
  the previous one, so both colons are recorded at offsets \<open>[2, 3)\<close>: the span \<open>[5, 6]\<close>
  over the second colon covers no recorded occurrence and is counted wrong, the span
  \<open>[2, 3]\<close> over the first colon covers both and is awarded the point, and the sentinel
  \<open>[-1, -1]\<close> is skipped.
\<close>

theorem speed_second_colon_scoring:
  "SpeedTest_calculateResult colon_test [JArr [JNum 5, JNum 6]]
     = Some (Inr \<lparr>score = 0, correct = [], wrong = [0]\<rparr>)
   \<and> SpeedTest_calculateResult colon_test [JArr [JNum 2, JNum 3]]
     = Some (Inr \<lparr>score = 1, correct = [0], wrong = []\<rparr>)
   \<and> SpeedTest_calculateResult colon_test [JArr [JNum (- 1), JNum (- 1)]]
     = Some (Inr \<lparr>score = 0, correct = [], wrong = []\<rparr>)"
  by (simp add: speed_eval_defs colon_test_def colon_occurences)


















section \<open>Journal log: wire format (local-storage.service.ts)\<close>

text \<open>
  A JavaScript \<open>Map\<close> keeps its entries in insertion order and holds every key once: an
  association list. \<open>Map.prototype.set\<close> overwrites the value of a key that is present
  (the entry keeps its place) and appends a new entry otherwise, which is
  \<^const>\<open>AList.update\<close>; \<open>forEach\<close> visits the entries in list order.
\<close>

type_synonym ('k, 'v) jsmap = "('k \<times> 'v) list"

definition Map_set :: "'k \<Rightarrow> 'v \<Rightarrow> ('k, 'v) jsmap \<Rightarrow> ('k, 'v) jsmap" where
  "Map_set k v m = AList.update k v m"

text \<open>A well-formed \<open>Map\<close> value: no key twice.\<close>

definition is_Map :: "('k, 'v) jsmap \<Rightarrow> bool" where
  "is_Map m = distinct (map fst m)"

text \<open>\<open>JournalLog\<close>: one \<open>Map<number, any[]>\<close> per test set.\<close>

record JournalLog =
  log_sets :: "(int, jsval list) jsmap list"

text \<open>The stored shape: \<open>{sets: [{maps: [{key, val}, ...]}, ...]}\<close>.\<close>

record log_entry =
  entry_key :: int
  entry_val :: "jsval list"

record log_set_obj =
  maps :: "log_entry list"

record log_proto_obj =
  proto_sets :: "log_set_obj list"

definition prepareJournalLogForSaving :: "JournalLog \<Rightarrow> log_proto_obj" where
  "prepareJournalLogForSaving journalLog =
     \<lparr>proto_sets =
        map (\<lambda>element. \<lparr>maps = map (\<lambda>(key, val). \<lparr>entry_key = key, entry_val = val\<rparr>) element\<rparr>)
          (log_sets journalLog)\<rparr>"

definition extractSavedJournalLog :: "log_proto_obj \<Rightarrow> JournalLog" where
  "extractSavedJournalLog protoObj =
     \<lparr>log_sets =
        map (\<lambda>set. fold (\<lambda>obj protoSet. Map_set (entry_key obj) (entry_val obj) protoSet) (maps set) [])
          (proto_sets protoObj)\<rparr>"

lemma fold_Map_set_append:
  "distinct (map fst (acc @ m)) \<Longrightarrow>
   fold (\<lambda>obj protoSet. Map_set (entry_key obj) (entry_val obj) protoSet)
     (map (\<lambda>(key, val). \<lparr>entry_key = key, entry_val = val\<rparr>) m) acc = acc @ m"
proof (induction m arbitrary: acc)
  case Nil
  then show ?case by simp
next
  case (Cons p m)
  obtain k v where p: "p = (k, v)" by (cases p)
  from Cons.prems have notin: "k \<notin> fst ` set acc"
    by (auto simp: p)
  have upd: "AList.update k v acc = acc @ [(k, v)]"
    using notin by (induction acc) auto
  from Cons.prems have "distinct (map fst ((acc @ [(k, v)]) @ m))"
    by (simp add: p)
  from Cons.IH [OF this] show ?case
    by (simp add: p Map_set_def upd)
qed

text \<open>
  C9. Saving a journal log and extracting it again gives the log back: the same sets in
  the same order, each with the same entries in the same order. Every set of the log
  is a \<open>Map\<close>, so it holds no key twice.
\<close>

theorem journal_log_roundtrip:
  assumes "\<forall>m \<in> set (log_sets journalLog). is_Map m"
  shows "extractSavedJournalLog (prepareJournalLogForSaving journalLog) = journalLog"
proof -
  have "map (\<lambda>m. fold (\<lambda>obj protoSet. Map_set (entry_key obj) (entry_val obj) protoSet)
              (map (\<lambda>(key, val). \<lparr>entry_key = key, entry_val = val\<rparr>) m) [])
          (log_sets journalLog) = log_sets journalLog"
    using assms fold_Map_set_append [of "[]"]
    by (simp add: map_idI is_Map_def)
  then show ?thesis
    by (simp add: extractSavedJournalLog_def prepareJournalLogForSaving_def o_def)
qed

theorem journal_log_roundtrip_witness:
  "extractSavedJournalLog (prepareJournalLogForSaving
     \<lparr>log_sets = [[(1001, [JBool False, JBool True]), (1004, [JStr ''ummy'', JStr ''se''])],
                  [(1002, [JBool False, JBool True, JBool False])]]\<rparr>)
   = \<lparr>log_sets = [[(1001, [JBool False, JBool True]), (1004, [JStr ''ummy'', JStr ''se''])],
                  [(1002, [JBool False, JBool True, JBool False])]]\<rparr>"
  using journal_log_roundtrip
    [of "\<lparr>log_sets = [[(1001, [JBool False, JBool True]), (1004, [JStr ''ummy'', JStr ''se''])],
                  [(1002, [JBool False, JBool True, JBool False])]]\<rparr>"]
  by (simp add: is_Map_def)

section \<open>Result calculation (result.controller.js)\<close>

subsection \<open>Course configuration and journal\<close>

text \<open>
  A single test of a course configuration, with the fields the backend reads. An option
  may or may not carry \<open>correct\<close> and \<open>index\<close>.
\<close>

record test_option =
  to_text :: string
  to_correct :: "jsval option"
  to_index :: "jsval option"

record test_config =
  tc_id :: int
  tc_category :: string
  tc_evaluated :: bool
  tc_seconds :: "int option"
  tc_options :: "test_option list"

record course_config =
  cfg_validationSchema :: string
  cfg_tests :: "test_config list"

text \<open>The journal as the backend stores it (journal.model.js): the minimal structure
  (set id and test ids per set) and the log in its saved shape.\<close>

record structure_set =
  set_id :: int
  set_tests :: "int list"

record journal_structure =
  js_course :: string
  js_language :: string
  js_sets :: "structure_set list"

record journal =
  jr_log :: log_proto_obj
  jr_structure :: journal_structure

subsection \<open>Test instances\<close>

text \<open>What \<open>calculate\<close> uses of a test model instance: the \<open>maxScore\<close> getter and
  \<open>calculateResult\<close>.\<close>

record test_instance =
  ti_maxScore :: nat
  ti_calculateResult :: "jsval list \<Rightarrow> (error + score_result) option"

type_synonym factory = "string \<Rightarrow> test_config \<Rightarrow> test_instance option"

text \<open>
  The constructor of \<open>SpeedTest\<close> (abstract.js, second part): \<open>loadConfig\<close> validates the
  configuration against the schema, of which the speed test's own additions are
  modelled (category \<open>speed\<close>, \<open>seconds\<close> present, every option with string \<open>correct\<close> and
  string \<open>index\<close>); \<open>None\<close> is the thrown \<open>Invalid test config\<close>.
\<close>

definition speed_option_of :: "test_option \<Rightarrow> speed_option option" where
  "speed_option_of opt =
     (case (to_correct opt, to_index opt) of
        (Some (JStr c), Some (JStr ix)) \<Rightarrow>
          Some \<lparr>opt_text = to_text opt, opt_correct = c, opt_index = ix\<rparr>
      | _ \<Rightarrow> None)"

definition SpeedTest_maxScore :: "test_config \<Rightarrow> nat" where
  "SpeedTest_maxScore config = length (filter (\<lambda>opt. to_correct opt \<noteq> None) (tc_options config))"

definition SpeedTest_new :: "test_config \<Rightarrow> test_instance option" where
  "SpeedTest_new config =
     (if tc_category config = ''speed'' \<and> tc_seconds config \<noteq> None
         \<and> list_all (\<lambda>opt. speed_option_of opt \<noteq> None) (tc_options config)
      then Some \<lparr>ti_maxScore = SpeedTest_maxScore config,
                 ti_calculateResult =
                   SpeedTest_calculateResult (map (\<lambda>opt. the (speed_option_of opt)) (tc_options config))\<rparr>
      else None)"

text \<open>
  Modelled from the spec: \<open>courseTestModels.Factory\<close> is not among the sources. The
  scorer is selected by the test's category and a category without a scorer yields
  \<open>null\<close>; this factory knows the speed test class, the one test model the sources hold
  for this \<open>calculate\<close>. The theorems about \<open>calculate\<close> hold for every factory.
\<close>

definition speed_factory :: factory where
  "speed_factory category config = (if category = ''speed'' then SpeedTest_new config else None)"

subsection \<open>\<open>calculate\<close>\<close>

record test_result =
  tr_id :: int
  tr_score :: nat
  tr_maxScore :: nat
  tr_correctOptions :: "nat list"
  tr_wrongOptions :: "nat list"

text \<open>The first test of \<open>config['tests']\<close> with the id (the loop breaks at the first hit).\<close>

definition find_test_config :: "test_config list \<Rightarrow> int \<Rightarrow> test_config option" where
  "find_test_config tests singleTestID = find (\<lambda>test. tc_id test = singleTestID) tests"

text \<open>
  The log lookup: \<open>break\<close> leaves the inner loop only, so every set of the log is
  searched and the first hit of the last set that has one is kept.
\<close>

definition find_test_log :: "log_proto_obj \<Rightarrow> int \<Rightarrow> jsval list option" where
  "find_test_log jlog singleTestID =
     fold (\<lambda>set testLog.
             case find (\<lambda>entry. entry_key entry = singleTestID) (maps set) of
               Some entry \<Rightarrow> Some (entry_val entry)
             | None \<Rightarrow> testLog)
       (proto_sets jlog) None"

text \<open>
  \<open>testsData\<close> is a plain object keyed by test id. Assigning to a key that exists keeps
  the property's place, a new key is added last: \<^const>\<open>Map_set\<close>.
\<close>

type_synonym tests_data = "(int, test_config \<times> jsval list) jsmap"

fun gather_set :: "course_config \<Rightarrow> journal \<Rightarrow> int list \<Rightarrow> tests_data \<Rightarrow> tests_data option" where
  "gather_set config journal [] testsData = Some testsData"
| "gather_set config journal (singleTestID # rest) testsData =
     (case find_test_config (cfg_tests config) singleTestID of
        None \<Rightarrow> None
      | Some testConfig \<Rightarrow>
          if tc_evaluated testConfig = False then gather_set config journal rest testsData
          else
            (case find_test_log (jr_log journal) singleTestID of
               None \<Rightarrow> None
             | Some testLog \<Rightarrow>
                 gather_set config journal rest
                   (Map_set singleTestID (testConfig, testLog) testsData)))"

fun gather_sets ::
  "course_config \<Rightarrow> journal \<Rightarrow> structure_set list \<Rightarrow> tests_data \<Rightarrow> tests_data option" where
  "gather_sets config journal [] testsData = Some testsData"
| "gather_sets config journal (tset # rest) testsData =
     (case gather_set config journal (set_tests tset) testsData of
        None \<Rightarrow> None
      | Some testsData' \<Rightarrow> gather_sets config journal rest testsData')"

text \<open>
  \<open>for (const key in testsData)\<close> enumerates the keys that are array indices (the
  integers from 0 to \<open>2^32 - 2\<close>) in ascending order first, then the other keys in the
  order they were created.
\<close>

definition is_array_index :: "int \<Rightarrow> bool" where
  "is_array_index k = (0 \<le> k \<and> k < 4294967295)"

definition for_in :: "(int, 'v) jsmap \<Rightarrow> (int \<times> 'v) list" where
  "for_in obj =
     sort_key fst (filter (\<lambda>p. is_array_index (fst p)) obj)
     @ filter (\<lambda>p. \<not> is_array_index (fst p)) obj"

text \<open>The second loop; \<open>result.id\<close> is the property key, the decimal text of the test id,
  kept here as the id itself.\<close>

fun score_tests ::
  "factory \<Rightarrow> (int \<times> test_config \<times> jsval list) list \<Rightarrow> test_result list
     \<Rightarrow> (error + test_result list) option" where
  "score_tests create [] tests = Some (Inr tests)"
| "score_tests create ((key, config, jlog) # rest) tests =
     (case create (tc_category config) config of
        None \<Rightarrow> score_tests create rest tests
      | Some testInstance \<Rightarrow>
          (case ti_calculateResult testInstance jlog of
             None \<Rightarrow> None
           | Some (Inl e) \<Rightarrow> Some (Inl e)
           | Some (Inr testResult) \<Rightarrow>
               score_tests create rest
                 (tests @ [\<lparr>tr_id = key, tr_score = score testResult,
                            tr_maxScore = ti_maxScore testInstance,
                            tr_correctOptions = correct testResult,
                            tr_wrongOptions = wrong testResult\<rparr>])))"

text \<open>
  \<open>calculate\<close>: \<open>Some (Inr None)\<close> is the returned \<open>null\<close>, \<open>Some (Inr (Some tests))\<close> the
  returned array, \<open>Some (Inl e)\<close> an exception of a scorer passing through, and \<open>None\<close> a
  scorer that does not return.
\<close>

definition calculate ::
  "factory \<Rightarrow> course_config \<Rightarrow> journal \<Rightarrow> (error + test_result list option) option" where
  "calculate create config journal =
     (case gather_sets config journal (js_sets (jr_structure journal)) [] of
        None \<Rightarrow> Some (Inr None)
      | Some testsData \<Rightarrow>
          (case score_tests create (for_in testsData) [] of
             None \<Rightarrow> None
           | Some (Inl e) \<Rightarrow> Some (Inl e)
           | Some (Inr tests) \<Rightarrow> Some (Inr (Some tests))))"

subsection \<open>The vocabulary of the claims\<close>

definition listed_ids :: "journal \<Rightarrow> int set" where
  "listed_ids journal = (\<Union>s \<in> set (js_sets (jr_structure journal)). set (set_tests s))"

definition has_test_config :: "course_config \<Rightarrow> int \<Rightarrow> bool" where
  "has_test_config config tid = (tid \<in> tc_id ` set (cfg_tests config))"

definition to_be_evaluated :: "course_config \<Rightarrow> int \<Rightarrow> bool" where
  "to_be_evaluated config tid =
     (case find_test_config (cfg_tests config) tid of
        None \<Rightarrow> False
      | Some testConfig \<Rightarrow> tc_evaluated testConfig)"

definition has_log_entry :: "journal \<Rightarrow> int \<Rightarrow> bool" where
  "has_log_entry journal tid =
     (tid \<in> (\<Union>s \<in> set (proto_sets (jr_log journal)). entry_key ` set (maps s)))"


text \<open>A listed test id on which the first loop of \<open>calculate\<close> returns \<open>null\<close>.\<close>

definition aborts :: "course_config \<Rightarrow> journal \<Rightarrow> int \<Rightarrow> bool" where
  "aborts config journal tid =
     (\<not> has_test_config config tid
      \<or> (to_be_evaluated config tid \<and> \<not> has_log_entry journal tid))"

subsection \<open>An example course\<close>

definition example_config :: course_config where
  "example_config =
     \<lparr>cfg_validationSchema = ''AA-[0-9][0-9]%2'',
      cfg_tests =
        [\<lparr>tc_id = 1, tc_category = ''speed'', tc_evaluated = True, tc_seconds = Some 10,
          tc_options = [\<lparr>to_text = ''ab:cd:ef'', to_correct = Some (JStr '':''),
                         to_index = Some (JStr ''1'')\<rparr>]\<rparr>,
         \<lparr>tc_id = 2, tc_category = ''speed'', tc_evaluated = True, tc_seconds = Some 10,
          tc_options = [\<lparr>to_text = ''dummy first option'', to_correct = Some (JStr ''um''),
                         to_index = Some (JStr ''0'')\<rparr>]\<rparr>]\<rparr>"

definition example_log :: log_proto_obj where
  "example_log =
     \<lparr>proto_sets =
        [\<lparr>maps = [\<lparr>entry_key = 2, entry_val = [JArr [JNum 1, JNum 3]]\<rparr>]\<rparr>,
         \<lparr>maps = [\<lparr>entry_key = 1, entry_val = [JArr [JNum (- 1), JNum (- 1)]]\<rparr>]\<rparr>]\<rparr>"

definition short_log :: log_proto_obj where
  "short_log =
     \<lparr>proto_sets = [\<lparr>maps = [\<lparr>entry_key = 2, entry_val = [JArr [JNum 1, JNum 3]]\<rparr>]\<rparr>]\<rparr>"

text \<open>A journal of two sets, 3001 and 3002, listing the given test ids.\<close>

definition example_journal :: "log_proto_obj \<Rightarrow> int list list \<Rightarrow> journal" where
  "example_journal jlog tests_of_sets =
     \<lparr>jr_log = jlog,
      jr_structure =
        \<lparr>js_course = ''informatik'', js_language = ''de'',
         js_sets = map (\<lambda>(i, ts). \<lparr>set_id = i, set_tests = ts\<rparr>) (zip [3001, 3002] tests_of_sets)\<rparr>\<rparr>"

text \<open>The test ids of a structure in the order of its sets and of their elements.\<close>

definition structure_order :: "journal \<Rightarrow> int list" where
  "structure_order journal = concat (map set_tests (js_sets (jr_structure journal)))"

text \<open>
  The keys of \<open>testsData\<close> in the order the first loop creates them: each id once, at
  the place of its first assignment.
\<close>

definition creation_order :: "'a list \<Rightarrow> 'a list" where
  "creation_order ids = fold (\<lambda>k keys. if k \<in> set keys then keys else keys @ [k]) ids []"

text \<open>The order in which \<open>for ... in\<close> visits a list of keys given in creation order.\<close>

definition enumeration_order :: "int list \<Rightarrow> int list" where
  "enumeration_order keys =
     sort (filter is_array_index keys) @ filter (\<lambda>k. \<not> is_array_index k) keys"

text \<open>
  The tests the second loop scores: the evaluated test ids of the structure, in
  enumeration order, whose category has a scorer (\<open>Factory.create\<close> does not give
  \<open>null\<close>).
\<close>

definition has_instance :: "factory \<Rightarrow> course_config \<Rightarrow> int \<Rightarrow> bool" where
  "has_instance create config tid =
     (case find_test_config (cfg_tests config) tid of
        None \<Rightarrow> False
      | Some testConfig \<Rightarrow> create (tc_category testConfig) testConfig \<noteq> None)"

definition scored_ids :: "factory \<Rightarrow> course_config \<Rightarrow> journal \<Rightarrow> int list" where
  "scored_ids create config journal =
     filter (has_instance create config)
       (enumeration_order
          (creation_order (filter (to_be_evaluated config) (structure_order journal))))"

text \<open>
  The result entry of one test id: the scorer of the test's category applied to the log
  entry of the test. \<open>None\<close> when the configuration, the log entry or the scorer is
  missing, and when the scorer throws or does not return.
\<close>

definition test_result_of ::
  "factory \<Rightarrow> course_config \<Rightarrow> journal \<Rightarrow> int \<Rightarrow> test_result option" where
  "test_result_of create config journal tid =
     (case find_test_config (cfg_tests config) tid of
        None \<Rightarrow> None
      | Some testConfig \<Rightarrow>
          (case find_test_log (jr_log journal) tid of
             None \<Rightarrow> None
           | Some testLog \<Rightarrow>
               (case create (tc_category testConfig) testConfig of
                  None \<Rightarrow> None
                | Some testInstance \<Rightarrow>
                    (case ti_calculateResult testInstance testLog of
                       Some (Inr testResult) \<Rightarrow>
                         Some \<lparr>tr_id = tid, tr_score = score testResult,
                               tr_maxScore = ti_maxScore testInstance,
                               tr_correctOptions = correct testResult,
                               tr_wrongOptions = wrong testResult\<rparr>
                     | _ \<Rightarrow> None))))"

text \<open>
  The same for an entry of \<open>testsData\<close>, and the entry the first loop stores under a
  test id.
\<close>

definition result_of_entry :: "factory \<Rightarrow> int \<times> test_config \<times> jsval list \<Rightarrow> test_result option" where
  "result_of_entry create e =
     (case e of (key, config, jlog) \<Rightarrow>
        (case create (tc_category config) config of
           None \<Rightarrow> None
         | Some testInstance \<Rightarrow>
             (case ti_calculateResult testInstance jlog of
                Some (Inr testResult) \<Rightarrow>
                  Some \<lparr>tr_id = key, tr_score = score testResult,
                        tr_maxScore = ti_maxScore testInstance,
                        tr_correctOptions = correct testResult,
                        tr_wrongOptions = wrong testResult\<rparr>
              | _ \<Rightarrow> None)))"

definition data_entry :: "course_config \<Rightarrow> journal \<Rightarrow> int \<Rightarrow> int \<times> test_config \<times> jsval list" where
  "data_entry config journal k =
     (k, the (find_test_config (cfg_tests config) k), the (find_test_log (jr_log journal) k))"

text \<open>
  A course whose test ids are not all array indices. Test 4 is not evaluated and test 6
  belongs to a category without a scorer; test 5 is listed by both sets.
\<close>

definition speed_test_config :: "int \<Rightarrow> string \<Rightarrow> bool \<Rightarrow> test_config" where
  "speed_test_config tid category evaluated =
     \<lparr>tc_id = tid, tc_category = category, tc_evaluated = evaluated, tc_seconds = Some 10,
      tc_options = [\<lparr>to_text = ''dummy first option'', to_correct = Some (JStr ''um''),
                     to_index = Some (JStr ''0'')\<rparr>]\<rparr>"

definition mixed_config :: course_config where
  "mixed_config =
     \<lparr>cfg_validationSchema = ''AA-[0-9][0-9]%2'',
      cfg_tests =
        [speed_test_config (- 1) ''speed'' True, speed_test_config 5 ''speed'' True,
         speed_test_config 4 ''speed'' False, speed_test_config (- 7) ''speed'' True,
         speed_test_config 3 ''speed'' True, speed_test_config 6 ''checkbox'' True]\<rparr>"

definition mixed_journal :: journal where
  "mixed_journal =
     \<lparr>jr_log =
        \<lparr>proto_sets =
           [\<lparr>maps = [\<lparr>entry_key = - 1, entry_val = [JArr [JNum (- 1), JNum (- 1)]]\<rparr>,
                      \<lparr>entry_key = 5, entry_val = [JArr [JNum 1, JNum 3]]\<rparr>]\<rparr>,
            \<lparr>maps = [\<lparr>entry_key = - 7, entry_val = [JArr [JNum (- 1), JNum (- 1)]]\<rparr>,
                      \<lparr>entry_key = 3, entry_val = [JArr [JNum 1, JNum 3]]\<rparr>,
                      \<lparr>entry_key = 6, entry_val = [JBool True]\<rparr>]\<rparr>]\<rparr>,
      jr_structure =
        \<lparr>js_course = ''informatik'', js_language = ''de'',
         js_sets = [\<lparr>set_id = 3001, set_tests = [- 1, 5, 4]\<rparr>,
                    \<lparr>set_id = 3002, set_tests = [- 7, 3, 5, 6]\<rparr>]\<rparr>\<rparr>"

subsection \<open>Properties of \<open>calculate\<close>\<close>



lemma find_test_config_None: "find_test_config (cfg_tests config) tid = None \<longleftrightarrow> \<not> has_test_config config tid"
  by (auto simp: find_test_config_def has_test_config_def find_None_iff)

lemma find_test_log_fold:
  "\<forall>s \<in> set sets. tid \<notin> entry_key ` set (maps s) \<Longrightarrow>
   fold (\<lambda>set testLog.
             case find (\<lambda>entry. entry_key entry = tid) (maps set) of
               Some entry \<Rightarrow> Some (entry_val entry)
             | None \<Rightarrow> testLog) sets acc = acc"
proof (induction sets arbitrary: acc)
  case Nil then show ?case by simp
next
  case (Cons s sets)
  then have "find (\<lambda>entry. entry_key entry = tid) (maps s) = None"
    by (auto simp: find_None_iff)
  with Cons show ?case by simp
qed

lemma find_test_log_None: "\<not> has_log_entry journal tid \<Longrightarrow> find_test_log (jr_log journal) tid = None"
  unfolding find_test_log_def has_log_entry_def
  by (rule find_test_log_fold) auto

lemma gather_set_aborts:
  "tid \<in> set ids \<Longrightarrow> aborts config journal tid \<Longrightarrow> gather_set config journal ids testsData = None"
proof (induction ids arbitrary: testsData)
  case Nil then show ?case by simp
next
  case (Cons a ids)
  show ?case
  proof (cases "a = tid")
    case True
    with Cons.prems(2) show ?thesis
      by (auto simp: aborts_def find_test_config_None [symmetric] to_be_evaluated_def find_test_log_None split: option.splits)
  next
    case False
    with Cons.prems have "tid \<in> set ids" by simp
    from Cons.IH [OF this Cons.prems(2)] show ?thesis
      by (simp split: option.splits)
  qed
qed

lemma gather_sets_aborts:
  "tid \<in> (\<Union>s \<in> set sets. set (set_tests s)) \<Longrightarrow> aborts config journal tid \<Longrightarrow> gather_sets config journal sets testsData = None"
proof (induction sets arbitrary: testsData)
  case Nil then show ?case by simp
next
  case (Cons s sets)
  show ?case
  proof (cases "tid \<in> set (set_tests s)")
    case True
    from gather_set_aborts [OF this Cons.prems(2)] show ?thesis by simp
  next
    case False
    with Cons.prems have "tid \<in> (\<Union>s \<in> set sets. set (set_tests s))" by simp
    from Cons.IH [OF this Cons.prems(2)] show ?thesis
      by (simp split: option.splits)
  qed
qed

text \<open>
  C2. If a set of \<open>journal.structure\<close> lists a test id that no test of \<open>config.tests\<close>
  has, or lists a test that is to be evaluated and has no entry in \<open>journal.log\<close>, then
  \<open>calculate\<close> returns \<open>null\<close>: the first loop returns before any result is computed.
\<close>

theorem calculate_aborts_on_missing_data:
  assumes "tid \<in> listed_ids journal"
    and "\<not> has_test_config config tid \<or> (to_be_evaluated config tid \<and> \<not> has_log_entry journal tid)"
  shows "calculate create config journal = Some (Inr None)"
  using gather_sets_aborts [of tid "js_sets (jr_structure journal)" config journal "[]"] assms
  by (simp add: calculate_def listed_ids_def aborts_def)



lemma Map_set_data_entry:
  "Map_set k (snd (data_entry config journal k)) (map (data_entry config journal) ks)
   = map (data_entry config journal) (if k \<in> set ks then ks else ks @ [k])"
  by (induction ks) (auto simp: Map_set_def data_entry_def)

lemma gather_set_exact:
  "gather_set config journal ids (map (data_entry config journal) ks) = Some td \<Longrightarrow>
   td = map (data_entry config journal)
          (fold (\<lambda>k keys. if k \<in> set keys then keys else keys @ [k])
             (filter (to_be_evaluated config) ids) ks)"
proof (induction ids arbitrary: ks)
  case Nil
  then show ?case by simp
next
  case (Cons a ids)
  from Cons.prems obtain tc where tc: "find_test_config (cfg_tests config) a = Some tc"
    by (auto split: option.splits)
  show ?case
  proof (cases "tc_evaluated tc")
    case False
    with Cons.prems tc
    have "gather_set config journal ids (map (data_entry config journal) ks) = Some td" by simp
    from Cons.IH [OF this] show ?thesis using tc False by (simp add: to_be_evaluated_def)
  next
    case True
    with Cons.prems tc obtain l where l: "find_test_log (jr_log journal) a = Some l"
      and rest: "gather_set config journal ids
          (Map_set a (tc, l) (map (data_entry config journal) ks)) = Some td"
      by (auto split: option.splits)
    have "snd (data_entry config journal a) = (tc, l)"
      by (simp add: data_entry_def tc l)
    with Map_set_data_entry [of a config journal ks]
    have "Map_set a (tc, l) (map (data_entry config journal) ks)
          = map (data_entry config journal) (if a \<in> set ks then ks else ks @ [a])"
      by simp
    with rest have "gather_set config journal ids
          (map (data_entry config journal) (if a \<in> set ks then ks else ks @ [a])) = Some td"
      by simp
    from Cons.IH [OF this] show ?thesis using tc True by (simp add: to_be_evaluated_def)
  qed
qed

lemma gather_sets_exact:
  "gather_sets config journal sets (map (data_entry config journal) ks) = Some td \<Longrightarrow>
   td = map (data_entry config journal)
          (fold (\<lambda>k keys. if k \<in> set keys then keys else keys @ [k])
             (filter (to_be_evaluated config) (concat (map set_tests sets))) ks)"
proof (induction sets arbitrary: ks)
  case Nil
  then show ?case by simp
next
  case (Cons s sets)
  from Cons.prems obtain td1 where
    1: "gather_set config journal (set_tests s) (map (data_entry config journal) ks) = Some td1"
    and 2: "gather_sets config journal sets td1 = Some td"
    by (auto split: option.splits)
  from gather_set_exact [OF 1] 2 Cons.IH show ?case by simp
qed

lemma find_test_log_fold_Some:
  "acc \<noteq> None \<or> tid \<in> (\<Union>s \<in> set sets. entry_key ` set (maps s)) \<Longrightarrow>
   fold (\<lambda>tset testLog.
           case find (\<lambda>entry. entry_key entry = tid) (maps tset) of
             Some entry \<Rightarrow> Some (entry_val entry)
           | None \<Rightarrow> testLog) sets acc \<noteq> None"
proof (induction sets arbitrary: acc)
  case Nil
  then show ?case by simp
next
  case (Cons s sets)
  show ?case
  proof (cases "find (\<lambda>entry. entry_key entry = tid) (maps s)")
    case None
    then have "tid \<notin> entry_key ` set (maps s)" by (auto simp: find_None_iff)
    with Cons.prems have "acc \<noteq> None \<or> tid \<in> (\<Union>s \<in> set sets. entry_key ` set (maps s))"
      by auto
    from Cons.IH [OF this] None show ?thesis by simp
  next
    case (Some entry)
    have "Some (entry_val entry) \<noteq> None \<or> tid \<in> (\<Union>s \<in> set sets. entry_key ` set (maps s))"
      by simp
    from Cons.IH [OF this] Some show ?thesis by simp
  qed
qed

lemma find_test_log_has_entry:
  "has_log_entry journal tid \<Longrightarrow> find_test_log (jr_log journal) tid \<noteq> None"
  unfolding find_test_log_def has_log_entry_def
  by (rule find_test_log_fold_Some) simp

lemma gather_set_returns:
  "list_all (\<lambda>tid. \<not> aborts config journal tid) ids \<Longrightarrow>
   gather_set config journal ids td \<noteq> None"
proof (induction ids arbitrary: td)
  case Nil
  then show ?case by simp
next
  case (Cons a ids)
  from Cons.prems have a: "\<not> aborts config journal a"
    and rest: "list_all (\<lambda>tid. \<not> aborts config journal tid) ids" by simp_all
  from a obtain tc where tc: "find_test_config (cfg_tests config) a = Some tc"
    using find_test_config_None [of config a] by (auto simp: aborts_def)
  show ?case
  proof (cases "tc_evaluated tc")
    case False
    with tc Cons.IH [OF rest] show ?thesis by simp
  next
    case True
    with a tc have "has_log_entry journal a" by (simp add: aborts_def to_be_evaluated_def)
    then have "find_test_log (jr_log journal) a \<noteq> None"
      by (rule find_test_log_has_entry)
    then obtain l where "find_test_log (jr_log journal) a = Some l" by blast
    with tc True Cons.IH [OF rest] show ?thesis by simp
  qed
qed

lemma gather_sets_returns:
  "list_all (\<lambda>tid. \<not> aborts config journal tid) (concat (map set_tests sets)) \<Longrightarrow>
   gather_sets config journal sets td \<noteq> None"
proof (induction sets arbitrary: td)
  case Nil
  then show ?case by simp
next
  case (Cons s sets)
  from Cons.prems have 1: "list_all (\<lambda>tid. \<not> aborts config journal tid) (set_tests s)"
    and 2: "list_all (\<lambda>tid. \<not> aborts config journal tid) (concat (map set_tests sets))"
    by simp_all
  from gather_set_returns [OF 1] obtain td1 where
    "gather_set config journal (set_tests s) td = Some td1" by blast
  with Cons.IH [OF 2] show ?case by simp
qed

lemma gather_sets_no_abort:
  "gather_sets config journal sets td = Some td' \<Longrightarrow>
   list_all (\<lambda>tid. \<not> aborts config journal tid) (concat (map set_tests sets))"
  using gather_sets_aborts [of _ sets config journal td]
  by (auto simp: list_all_iff)

lemma score_tests_exact:
  "score_tests create entries acc = Some (Inr res) \<longleftrightarrow>
   map Some res = map Some acc
     @ map (result_of_entry create)
         (filter (\<lambda>(k, c, l). create (tc_category c) c \<noteq> None) entries)"
proof (induction entries arbitrary: acc)
  case Nil
  show ?case by (auto simp: inj_map_eq_map)
next
  case (Cons e entries)
  obtain k c l where e: "e = (k, c, l)" by (cases e)
  have no_None: "map Some res \<noteq> map Some acc @ None # xs" for xs
  proof
    assume "map Some res = map Some acc @ None # xs"
    then have "None \<in> set (map Some res)" by simp
    then show False by auto
  qed
  show ?case
  proof (cases "create (tc_category c) c")
    case None
    with Cons.IH [of acc] show ?thesis by (simp add: e)
  next
    case (Some ti)
    show ?thesis
    proof (cases "ti_calculateResult ti l")
      case None
      with Some no_None show ?thesis by (simp add: e result_of_entry_def)
    next
      case out: (Some out)
      show ?thesis
      proof (cases out)
        case (Inl err)
        with Some out no_None show ?thesis by (simp add: e result_of_entry_def)
      next
        case (Inr r)
        with Some out Cons.IH [of "acc @ [\<lparr>tr_id = k, tr_score = score r,
                            tr_maxScore = ti_maxScore ti,
                            tr_correctOptions = correct r,
                            tr_wrongOptions = wrong r\<rparr>]"]
        show ?thesis by (simp add: e result_of_entry_def)
      qed
    qed
  qed
qed

lemma insort_key_map_graph:
  "insort_key fst (k, g k) (map (\<lambda>k. (k, g k)) xs) = map (\<lambda>k. (k, g k)) (insort k xs)"
  by (induction xs) simp_all

lemma sort_key_map_graph:
  "sort_key fst (map (\<lambda>k. (k, g k)) xs) = map (\<lambda>k. (k, g k)) (sort xs)"
  by (induction xs) (simp_all add: sort_key_simps insort_key_map_graph)

lemma for_in_data_entry:
  "for_in (map (data_entry config journal) ks)
   = map (data_entry config journal) (enumeration_order ks)"
proof -
  have de: "data_entry config journal
      = (\<lambda>k. (k, the (find_test_config (cfg_tests config) k),
                 the (find_test_log (jr_log journal) k)))"
    by (simp add: data_entry_def fun_eq_iff)
  show ?thesis
    unfolding de for_in_def enumeration_order_def
    by (simp add: filter_map comp_def sort_key_map_graph)
qed

lemma set_creation_fold:
  "set (fold (\<lambda>k keys. if k \<in> set keys then keys else keys @ [k]) ids ks) = set ks \<union> set ids"
  by (induction ids arbitrary: ks) auto

lemma distinct_creation_fold:
  "distinct ks \<Longrightarrow> distinct (fold (\<lambda>k keys. if k \<in> set keys then keys else keys @ [k]) ids ks)"
  by (induction ids arbitrary: ks) auto

lemma set_creation_order: "set (creation_order ids) = set ids"
  by (simp add: creation_order_def set_creation_fold)

lemma distinct_creation_order: "distinct (creation_order ids)"
  by (simp add: creation_order_def distinct_creation_fold)

lemma set_enumeration_order: "set (enumeration_order ks) = set ks"
  by (auto simp: enumeration_order_def)

lemma distinct_enumeration_order: "distinct ks \<Longrightarrow> distinct (enumeration_order ks)"
  by (auto simp: enumeration_order_def)

lemma distinct_scored_ids: "distinct (scored_ids create config journal)"
  by (simp add: scored_ids_def distinct_enumeration_order distinct_creation_order)

lemma test_result_of_id: "test_result_of create config journal k = Some x \<Longrightarrow> tr_id x = k"
  by (auto simp: test_result_of_def split: option.splits sum.splits)

lemma results_ids:
  assumes "map Some tests = map (test_result_of create config journal) ids"
  shows "map tr_id tests = ids"
proof -
  have "map tr_id tests = map (tr_id \<circ> the) (map Some tests)" by (simp add: comp_def)
  also have "\<dots> = map (tr_id \<circ> the \<circ> test_result_of create config journal) ids"
    by (simp add: assms)
  also have "\<dots> = ids"
  proof (rule map_idI)
    fix k assume "k \<in> set ids"
    then have "test_result_of create config journal k \<in> set (map Some tests)"
      by (simp add: assms)
    then obtain x where "test_result_of create config journal k = Some x" by auto
    then show "(tr_id \<circ> the \<circ> test_result_of create config journal) k = k"
      by (simp add: test_result_of_id)
  qed
  finally show ?thesis .
qed

lemma gathered_entry:
  assumes "\<not> aborts config journal k" "to_be_evaluated config k"
  shows "(case data_entry config journal k of (k, c, l) \<Rightarrow> create (tc_category c) c \<noteq> None)
           = has_instance create config k"
    and "result_of_entry create (data_entry config journal k) = test_result_of create config journal k"
proof -
  from assms obtain tc where tc: "find_test_config (cfg_tests config) k = Some tc"
    by (auto simp: to_be_evaluated_def split: option.splits)
  from assms have "has_log_entry journal k" by (simp add: aborts_def)
  from find_test_log_has_entry [OF this] obtain l where
    l: "find_test_log (jr_log journal) k = Some l" by blast
  show "(case data_entry config journal k of (k, c, l) \<Rightarrow> create (tc_category c) c \<noteq> None)
           = has_instance create config k"
    by (simp add: data_entry_def has_instance_def tc)
  show "result_of_entry create (data_entry config journal k) = test_result_of create config journal k"
    by (simp add: data_entry_def result_of_entry_def test_result_of_def tc l)
qed

lemma calculate_exact:
  "calculate create config journal = Some (Inr (Some tests)) \<longleftrightarrow>
     list_all (\<lambda>tid. \<not> aborts config journal tid) (structure_order journal)
     \<and> map Some tests
       = map (test_result_of create config journal) (scored_ids create config journal)"
proof -
  let ?de = "data_entry config journal"
  let ?keys = "creation_order (filter (to_be_evaluated config) (structure_order journal))"
  let ?inst = "\<lambda>(k, c, l). create (tc_category c) c \<noteq> None"
  have scored: "map (result_of_entry create) (filter ?inst (map ?de (enumeration_order ?keys)))
      = map (test_result_of create config journal) (scored_ids create config journal)"
    if ok: "list_all (\<lambda>tid. \<not> aborts config journal tid) (structure_order journal)"
  proof -
    have k: "\<not> aborts config journal k \<and> to_be_evaluated config k"
      if "k \<in> set (enumeration_order ?keys)" for k
      using that ok by (auto simp: set_enumeration_order set_creation_order list_all_iff)
    have f: "filter (?inst \<circ> ?de) (enumeration_order ?keys)
        = filter (has_instance create config) (enumeration_order ?keys)"
    proof (rule filter_cong [OF refl])
      fix x assume "x \<in> set (enumeration_order ?keys)"
      from k [OF this] have "(case ?de x of (k, c, l) \<Rightarrow> create (tc_category c) c \<noteq> None)
           = has_instance create config x"
        by (intro gathered_entry(1)) simp_all
      then show "(?inst \<circ> ?de) x = has_instance create config x"
        unfolding comp_def .
    qed
    have "map (result_of_entry create) (filter ?inst (map ?de (enumeration_order ?keys)))
        = map (result_of_entry create \<circ> ?de) (filter (?inst \<circ> ?de) (enumeration_order ?keys))"
      by (simp add: filter_map)
    also have "\<dots> = map (result_of_entry create \<circ> ?de) (scored_ids create config journal)"
      by (simp only: f scored_ids_def)
    also have "\<dots> = map (test_result_of create config journal) (scored_ids create config journal)"
      by (rule map_cong [OF refl]) (simp add: gathered_entry(2) k scored_ids_def)
    finally show ?thesis .
  qed
  show ?thesis
  proof (cases "gather_sets config journal (js_sets (jr_structure journal)) []")
    case None
    have "\<not> list_all (\<lambda>tid. \<not> aborts config journal tid) (structure_order journal)"
      using gather_sets_returns [of config journal "js_sets (jr_structure journal)" "[]"] None
      by (auto simp: structure_order_def)
    with None show ?thesis by (simp add: calculate_def)
  next
    case (Some td)
    from gather_sets_no_abort [OF Some]
    have ok: "list_all (\<lambda>tid. \<not> aborts config journal tid) (structure_order journal)"
      by (simp add: structure_order_def)
    from gather_sets_exact [of config journal "js_sets (jr_structure journal)" "[]" td] Some
    have td: "td = map ?de ?keys"
      by (simp add: creation_order_def structure_order_def)
    have "calculate create config journal = Some (Inr (Some tests))
        \<longleftrightarrow> score_tests create (for_in td) [] = Some (Inr tests)"
      by (auto simp: calculate_def Some split: option.splits sum.splits)
    also have "\<dots> \<longleftrightarrow> map Some tests
        = map (result_of_entry create) (filter ?inst (map ?de (enumeration_order ?keys)))"
      by (simp add: score_tests_exact td for_in_data_entry)
    finally show ?thesis using ok scored [OF ok] by simp
  qed
qed

text \<open>
  C7 (as amended). \<open>calculate\<close> returns one flat list of test results, not grouped by
  set. It returns a list exactly when no listed test id lacks its configuration or, for
  an evaluated test, its log entry, and every scorer returns a result. The list then
  holds one result for each evaluated listed test whose category has a scorer, the
  result that scorer computes from the test's log entry, and nothing else. The results
  come in the enumeration order of \<open>testsData\<close>: the ids that are array indices
  (non-negative integers below \<open>2^32 - 1\<close>) in ascending order, then the other ids in
  the order of their first listing in the structure. No test has two results.
\<close>

theorem calculate_flat_enumeration:
  "(calculate create config journal = Some (Inr (Some tests)) \<longleftrightarrow>
      list_all (\<lambda>tid. \<not> aborts config journal tid) (structure_order journal)
      \<and> map Some tests
        = map (test_result_of create config journal) (scored_ids create config journal))
   \<and> (calculate create config journal = Some (Inr (Some tests)) \<longrightarrow>
        map tr_id tests = scored_ids create config journal \<and> distinct (map tr_id tests))"
proof -
  have "map tr_id tests = scored_ids create config journal \<and> distinct (map tr_id tests)"
    if "calculate create config journal = Some (Inr (Some tests))"
  proof -
    from that have "map Some tests
        = map (test_result_of create config journal) (scored_ids create config journal)"
      by (simp add: calculate_exact)
    from results_ids [OF this] show ?thesis by (simp add: distinct_scored_ids)
  qed
  with calculate_exact [of create config journal tests] show ?thesis by blast
qed

lemma dummy_occurences: "find_occurences ''dummy first option'' ''um'' [] = Some [(1, 3)]"
  by (simp add: find_occurences.simps search_def slice_def)

lemmas calculate_eval_defs =
  calculate_def example_journal_def example_config_def example_log_def short_log_def
  find_test_config_def find_test_log_def Map_set_def for_in_def is_array_index_def
  speed_factory_def SpeedTest_new_def SpeedTest_maxScore_def speed_option_of_def

lemma example_calculate:
  "calculate speed_factory example_config (example_journal example_log [[2], [1]])
   = Some (Inr (Some
       [\<lparr>tr_id = 1, tr_score = 0, tr_maxScore = 1, tr_correctOptions = [], tr_wrongOptions = []\<rparr>,
        \<lparr>tr_id = 2, tr_score = 1, tr_maxScore = 1, tr_correctOptions = [0], tr_wrongOptions = []\<rparr>]))"
  by (simp add: calculate_eval_defs speed_eval_defs dummy_occurences)

theorem calculate_aborts_witness:
  "calculate speed_factory example_config (example_journal example_log [[2], [3]]) = Some (Inr None)
   \<and> calculate speed_factory example_config (example_journal short_log [[2], [1]]) = Some (Inr None)"
  using calculate_aborts_on_missing_data
      [of 3 "example_journal example_log [[2], [3]]" example_config speed_factory]
    calculate_aborts_on_missing_data
      [of 1 "example_journal short_log [[2], [1]]" example_config speed_factory]
  by (simp add: listed_ids_def has_test_config_def has_log_entry_def to_be_evaluated_def
      find_test_config_def example_journal_def example_config_def short_log_def)

lemma mixed_scored_ids: "scored_ids speed_factory mixed_config mixed_journal = [3, 5, - 1, - 7]"
  by (simp add: scored_ids_def enumeration_order_def creation_order_def structure_order_def
      to_be_evaluated_def has_instance_def find_test_config_def is_array_index_def
      mixed_config_def mixed_journal_def speed_test_config_def speed_factory_def
      SpeedTest_new_def speed_option_of_def)

theorem calculate_flat_enumeration_witness:
  "calculate speed_factory mixed_config mixed_journal
   = Some (Inr (Some
       [\<lparr>tr_id = 3, tr_score = 1, tr_maxScore = 1, tr_correctOptions = [0], tr_wrongOptions = []\<rparr>,
        \<lparr>tr_id = 5, tr_score = 1, tr_maxScore = 1, tr_correctOptions = [0], tr_wrongOptions = []\<rparr>,
        \<lparr>tr_id = - 1, tr_score = 0, tr_maxScore = 1, tr_correctOptions = [], tr_wrongOptions = []\<rparr>,
        \<lparr>tr_id = - 7, tr_score = 0, tr_maxScore = 1, tr_correctOptions = [], tr_wrongOptions = []\<rparr>]))
   \<and> structure_order mixed_journal = [- 1, 5, 4, - 7, 3, 5, 6]
   \<and> scored_ids speed_factory mixed_config mixed_journal = [3, 5, - 1, - 7]"
proof -
  have ok: "list_all (\<lambda>tid. \<not> aborts mixed_config mixed_journal tid) (structure_order mixed_journal)"
    by (simp add: structure_order_def aborts_def has_test_config_def to_be_evaluated_def
        has_log_entry_def find_test_config_def mixed_config_def mixed_journal_def
        speed_test_config_def)
  have so: "structure_order mixed_journal = [- 1, 5, 4, - 7, 3, 5, 6]"
    by (simp add: structure_order_def mixed_journal_def)
  have r: "test_result_of speed_factory mixed_config mixed_journal 3
      = Some \<lparr>tr_id = 3, tr_score = 1, tr_maxScore = 1, tr_correctOptions = [0], tr_wrongOptions = []\<rparr>"
    "test_result_of speed_factory mixed_config mixed_journal 5
      = Some \<lparr>tr_id = 5, tr_score = 1, tr_maxScore = 1, tr_correctOptions = [0], tr_wrongOptions = []\<rparr>"
    "test_result_of speed_factory mixed_config mixed_journal (- 1)
      = Some \<lparr>tr_id = - 1, tr_score = 0, tr_maxScore = 1, tr_correctOptions = [], tr_wrongOptions = []\<rparr>"
    "test_result_of speed_factory mixed_config mixed_journal (- 7)
      = Some \<lparr>tr_id = - 7, tr_score = 0, tr_maxScore = 1, tr_correctOptions = [], tr_wrongOptions = []\<rparr>"
    by (simp_all add: test_result_of_def find_test_config_def find_test_log_def
        mixed_config_def mixed_journal_def speed_test_config_def speed_factory_def
        SpeedTest_new_def SpeedTest_maxScore_def speed_option_of_def speed_eval_defs
        dummy_occurences)
  from calculate_flat_enumeration [of speed_factory mixed_config mixed_journal
      "[\<lparr>tr_id = 3, tr_score = 1, tr_maxScore = 1, tr_correctOptions = [0], tr_wrongOptions = []\<rparr>,
        \<lparr>tr_id = 5, tr_score = 1, tr_maxScore = 1, tr_correctOptions = [0], tr_wrongOptions = []\<rparr>,
        \<lparr>tr_id = - 1, tr_score = 0, tr_maxScore = 1, tr_correctOptions = [], tr_wrongOptions = []\<rparr>,
        \<lparr>tr_id = - 7, tr_score = 0, tr_maxScore = 1, tr_correctOptions = [], tr_wrongOptions = []\<rparr>]"]
    ok
  show ?thesis by (simp add: so r mixed_scored_ids)
qed

text \<open>
  The structure lists test 2 (set 3001) before test 1 (set 3002); the returned list is
  flat and holds the result of test 1 before that of test 2.
\<close>

theorem calculate_not_in_structure_order:
  "calculate speed_factory example_config (example_journal example_log [[2], [1]])
   = Some (Inr (Some
       [\<lparr>tr_id = 1, tr_score = 0, tr_maxScore = 1, tr_correctOptions = [], tr_wrongOptions = []\<rparr>,
        \<lparr>tr_id = 2, tr_score = 1, tr_maxScore = 1, tr_correctOptions = [0], tr_wrongOptions = []\<rparr>]))
   \<and> structure_order (example_journal example_log [[2], [1]]) = [2, 1]"
  by (simp add: calculate_eval_defs speed_eval_defs dummy_occurences structure_order_def)

section \<open>Validation codes (result.controller.js)\<close>

subsection \<open>\<open>generateValidationCode\<close>\<close>

text \<open>
  \<open>Math.random()\<close> is the next element of a supply of draws, each a rational in
  \<open>[0, 1)\<close>; the functions return the unused rest of the supply. A supply that ends
  before the code is complete gives \<open>None\<close>, as does a loop that cannot end on any
  supply.
\<close>

definition unit_interval :: "rat \<Rightarrow> bool" where
  "unit_interval r = (0 \<le> r \<and> r < 1)"

text \<open>
  \<open>Math.floor(r * n)\<close>, with the exact product. The code rounds the product to the
  nearest double before \<open>floor\<close>, so for a draw just below a multiple of \<open>1/n\<close> it can
  give the next integer (the double nearest to 0.7 gives 7 for \<open>n = 10\<close>, its exact value
  gives 6). The range \<open>0, ..., n - 1\<close> is the same.
\<close>

definition random_int :: "rat \<Rightarrow> nat \<Rightarrow> nat" where
  "random_int r n = nat \<lfloor>r * of_nat n\<rfloor>"

definition digit_char :: "nat \<Rightarrow> char" where
  "digit_char n = ''0123456789'' ! n"

text \<open>The decimal text of a non-negative integer, as \<open>String(n)\<close> gives it.\<close>

fun string_of_nat :: "nat \<Rightarrow> string" where
  "string_of_nat n =
     (if n < 10 then [digit_char n]
      else string_of_nat (n div 10) @ [digit_char (n mod 10)])"

definition alphabet :: string where
  "alphabet = ''ABCDEFGHIJKLMNOPQRSTUVWXYZ''"

text \<open>\<open>toLowerCase\<close> on the letters of \<open>alphabet\<close>; other characters are kept.\<close>

definition toLowerCase :: "string \<Rightarrow> string" where
  "toLowerCase s =
     map (\<lambda>c. case indexOf alphabet [c] of
                 Some i \<Rightarrow> ''abcdefghijklmnopqrstuvwxyz'' ! i
               | None \<Rightarrow> c) s"

text \<open>The replacement drawn for a token of \<open>replaceTokens\<close>.\<close>

definition replacement :: "string \<Rightarrow> rat \<Rightarrow> string" where
  "replacement token r =
     (if token = ''[0-9]'' then string_of_nat (random_int r 10)
      else if token = ''[A-Z]'' then
        (let index = random_int r (length alphabet)
         in substring alphabet (int index) (int index + 1))
      else if token = ''[a-z]'' then
        (let index = random_int r (length alphabet)
         in toLowerCase (substring alphabet (int index) (int index + 1)))
      else [])"

text \<open>\<open>while (code.includes(token))\<close> of the first loop: one draw per round.\<close>

fun replace_token :: "string \<Rightarrow> string \<Rightarrow> rat list \<Rightarrow> (string \<times> rat list) option" where
  "replace_token token code [] = (if str_includes code token then None else Some (code, []))"
| "replace_token token code (r # rs) =
     (if str_includes code token
      then replace_token token (replace code token (replacement token r)) rs
      else Some (code, r # rs))"

text \<open>
  The number a string converts to in \<open>number % modulo\<close>, for decimal integer texts
  (surrounding white space and a sign allowed, the empty text is 0); \<open>None\<close> is \<open>NaN\<close>.
  The other numeric literal forms that \<open>Number\<close> reads (a decimal point, an exponent,
  the prefixes \<open>0x\<close>, \<open>0o\<close> and \<open>0b\<close>, \<open>Infinity\<close>) are not modelled and give \<open>None\<close> here;
  the schema \<open>AA-[0-9][0-9]%2\<close> evaluated below has the single digit \<open>2\<close> after \<open>%\<close>.
\<close>

definition to_number :: "string \<Rightarrow> int option" where
  "to_number s =
     (let t = rev (dropWhile is_whitespace (rev (dropWhile is_whitespace s)));
          neg = (t \<noteq> [] \<and> hd t = CHR ''-'');
          u = (if t \<noteq> [] \<and> (hd t = CHR ''-'' \<or> hd t = CHR ''+'') then tl t else t)
      in if t = [] then Some 0
         else if u = [] \<or> \<not> list_all is_digit u then None
         else let v = foldl (\<lambda>n c. 10 * n + digit_value c) 0 u
              in Some (if neg then - v else v))"

text \<open>\<open>number % modulo !== 0\<close>: true on \<open>NaN\<close>, which a zero or non-numeric modulo gives.\<close>

definition remainder_not_zero :: "nat \<Rightarrow> int option \<Rightarrow> bool" where
  "remainder_not_zero number modulus =
     (case modulus of
        None \<Rightarrow> True
      | Some m \<Rightarrow> m = 0 \<or> int number mod \<bar>m\<bar> \<noteq> 0)"

text \<open>The \<open>do ... while\<close> loop: draws until the remainder is zero.\<close>

fun draw_number :: "int option \<Rightarrow> rat list \<Rightarrow> (nat \<times> rat list) option" where
  "draw_number modulus [] = None"
| "draw_number modulus (r # rs) =
     (let number = random_int r 10
      in if remainder_not_zero number modulus then draw_number modulus rs
         else Some (number, rs))"

text \<open>
  \<open>while (code.includes(token))\<close> of the second loop. A \<open>%\<close> in the last position is
  handled by no branch: the round changes nothing and the loop goes on for ever.
\<close>

partial_function (option) meta_token ::
  "char \<Rightarrow> string \<Rightarrow> rat list \<Rightarrow> (string \<times> rat list) option" where
  "meta_token token code rs =
     (if \<not> str_includes code [token] then Some (code, rs)
      else
        let tokenIndex = (case indexOf code [token] of Some i \<Rightarrow> i | None \<Rightarrow> 0)
        in if token = CHR ''%'' \<and> int tokenIndex < int (length code) - 1 then
             (let modulus = substr code (tokenIndex + 1) (tokenIndex + 2)
              in case draw_number (to_number modulus) rs of
                   None \<Rightarrow> None
                 | Some (number, rs') \<Rightarrow>
                     meta_token token (replace code (token # modulus) (string_of_nat number)) rs')
           else if token = CHR ''('' then meta_token token (replace code [token] []) rs
           else if token = CHR '')'' then meta_token token (replace code [token] []) rs
           else meta_token token code rs)"

declare meta_token.simps [code]

definition generateValidationCode :: "string \<Rightarrow> rat list \<Rightarrow> (string \<times> rat list) option" where
  "generateValidationCode schema rs =
     (case replace_token ''[0-9]'' schema rs of
        None \<Rightarrow> None
      | Some (code1, rs1) \<Rightarrow>
     (case replace_token ''[A-Z]'' code1 rs1 of
        None \<Rightarrow> None
      | Some (code2, rs2) \<Rightarrow>
     (case replace_token ''[a-z]'' code2 rs2 of
        None \<Rightarrow> None
      | Some (code3, rs3) \<Rightarrow>
     (case meta_token CHR ''%'' code3 rs3 of
        None \<Rightarrow> None
      | Some (code4, rs4) \<Rightarrow>
     (case meta_token CHR ''('' code4 rs4 of
        None \<Rightarrow> None
      | Some (code5, rs5) \<Rightarrow> meta_token CHR '')'' code5 rs5)))))"

text \<open>Characters that are part of no token: neither a bracket of a replace token nor a
  meta token.\<close>

definition plain_char :: "char \<Rightarrow> bool" where
  "plain_char c = (c \<noteq> CHR ''['' \<and> c \<noteq> CHR ''%'' \<and> c \<noteq> CHR ''('' \<and> c \<noteq> CHR '')'')"

text \<open>\<open>AA-\<close> followed by three digits, the last of them even.\<close>

definition three_digit_code :: "string \<Rightarrow> bool" where
  "three_digit_code code =
     (length code = 6 \<and> take 3 code = ''AA-'' \<and> list_all is_digit (drop 3 code)
      \<and> even (digit_value (code ! 5)))"

definition is_upper :: "char \<Rightarrow> bool" where
  "is_upper c = (c \<in> set alphabet)"

text \<open>
  The shape the specification states for the template \<open>AA-[0-9][0-9]%2\<close>: two uppercase
  letters, a dash, and two digits whose two-digit value is even.
\<close>

definition claimed_code_shape :: "string \<Rightarrow> bool" where
  "claimed_code_shape code =
     (length code = 5 \<and> is_upper (code ! 0) \<and> is_upper (code ! 1) \<and> code ! 2 = CHR ''-''
      \<and> is_digit (code ! 3) \<and> is_digit (code ! 4)
      \<and> even (10 * digit_value (code ! 3) + digit_value (code ! 4)))"

subsection \<open>Properties of \<open>generateValidationCode\<close>\<close>


lemma random_int_less: "unit_interval r \<Longrightarrow> 0 < n \<Longrightarrow> random_int r n < n"
proof -
  assume r: "unit_interval r" and n: "0 < n"
  then have "r * of_nat n < of_nat n" by (simp add: unit_interval_def)
  then have "\<lfloor>r * of_nat n\<rfloor> < int n" by (simp add: floor_less_iff)
  moreover have "0 \<le> \<lfloor>r * of_nat n\<rfloor>" using r by (simp add: unit_interval_def)
  ultimately have "nat \<lfloor>r * of_nat n\<rfloor> < n" by linarith
  then show ?thesis by (simp add: random_int_def)
qed

lemma less_10_cases: "n < 10 \<Longrightarrow> n \<in> {0, 1, 2, 3, 4, 5, 6, 7, 8, 9 :: nat}"
  by auto

lemma digit_char_plain: "n < 10 \<Longrightarrow> plain_char (digit_char n)"
  using less_10_cases [of n] by (auto simp: digit_char_def plain_char_def)

lemma string_of_digit: "n < 10 \<Longrightarrow> string_of_nat n = [digit_char n]"
  by simp

lemma replace_token_absent:
  "\<not> str_includes code token \<Longrightarrow> replace_token token code rs = Some (code, rs)"
  by (cases rs) simp_all

lemma draw_number_props:
  "draw_number m rs = Some (n, rs') \<Longrightarrow> \<forall>r \<in> set rs. unit_interval r \<Longrightarrow>
   n < 10 \<and> \<not> remainder_not_zero n m"
proof (induction rs)
  case Nil then show ?case by simp
next
  case (Cons r rs)
  show ?case
  proof (cases "remainder_not_zero (random_int r 10) m")
    case True
    with Cons show ?thesis by (simp add: Let_def)
  next
    case False
    with Cons.prems have "n = random_int r 10" by (simp add: Let_def)
    with False Cons.prems(2) random_int_less [of r 10] show ?thesis by simp
  qed
qed

lemma schema_has_digit_token: "str_includes ''AA-[0-9][0-9]%2'' ''[0-9]''"
  by (simp add: str_includes_def)

lemma step_first_digit:
  assumes "plain_char c1"
  shows "replace ''AA-[0-9][0-9]%2'' ''[0-9]'' [c1] = CHR ''A'' # CHR ''A'' # CHR ''-'' # c1 # ''[0-9]%2''"
    and "str_includes (CHR ''A'' # CHR ''A'' # CHR ''-'' # c1 # ''[0-9]%2'') ''[0-9]''"
    and "replace (CHR ''A'' # CHR ''A'' # CHR ''-'' # c1 # ''[0-9]%2'') ''[0-9]'' [c2] = CHR ''A'' # CHR ''A'' # CHR ''-'' # c1 # c2 # ''%2''"
  using assms by (simp_all add: str_includes_def replace_def plain_char_def)

lemma step_digits:
  assumes "plain_char c1" "plain_char c2"
  shows "\<not> str_includes (CHR ''A'' # CHR ''A'' # CHR ''-'' # c1 # c2 # ''%2'') ''[0-9]''"
    and "\<not> str_includes (CHR ''A'' # CHR ''A'' # CHR ''-'' # c1 # c2 # ''%2'') ''[A-Z]''"
    and "\<not> str_includes (CHR ''A'' # CHR ''A'' # CHR ''-'' # c1 # c2 # ''%2'') ''[a-z]''"
  using assms by (simp_all add: str_includes_def replace_def plain_char_def)

lemma step_meta:
  assumes "plain_char c1" "plain_char c2" "plain_char c3"
  shows "str_includes (CHR ''A'' # CHR ''A'' # CHR ''-'' # c1 # c2 # ''%2'') ''%''"
    and "indexOf (CHR ''A'' # CHR ''A'' # CHR ''-'' # c1 # c2 # ''%2'') ''%'' = Some 5"
    and "substr (CHR ''A'' # CHR ''A'' # CHR ''-'' # c1 # c2 # ''%2'') 6 7 = ''2''"
    and "replace (CHR ''A'' # CHR ''A'' # CHR ''-'' # c1 # c2 # ''%2'') ''%2'' [c3] = [CHR ''A'', CHR ''A'', CHR ''-'', c1, c2, c3]"
    and "\<not> str_includes ([CHR ''A'', CHR ''A'', CHR ''-'', c1, c2, c3]) ''%''"
    and "\<not> str_includes ([CHR ''A'', CHR ''A'', CHR ''-'', c1, c2, c3]) ''(''"
    and "\<not> str_includes ([CHR ''A'', CHR ''A'', CHR ''-'', c1, c2, c3]) '')''"
  using assms by (simp_all add: str_includes_def replace_def plain_char_def substr_def)

lemma to_number_2: "to_number ''2'' = Some 2"
  by (simp add: to_number_def is_whitespace_def is_digit_def digit_value_def)


lemma meta_absent: "\<not> str_includes code [token] \<Longrightarrow> meta_token token code rs = Some (code, rs)"
  by (simp add: meta_token.simps)

lemma generate_shape:
  assumes gen: "generateValidationCode ''AA-[0-9][0-9]%2'' rs = Some (code, rs')"
    and rs: "\<forall>r \<in> set rs. unit_interval r"
  shows "\<exists>d1 d2 d3. d1 < 10 \<and> d2 < 10 \<and> d3 < 10 \<and> even d3
           \<and> code = ''AA-'' @ [digit_char d1, digit_char d2, digit_char d3]"
proof -
  from gen obtain r1 rs1 where rs1: "rs = r1 # rs1"
    by (cases rs) (simp_all add: generateValidationCode_def schema_has_digit_token)
  define d1 where "d1 = random_int r1 10"
  have d1: "d1 < 10" using rs random_int_less [of r1 10] by (simp add: rs1 d1_def)
  note p1 = digit_char_plain [OF d1]
  from gen obtain r2 rs2 where rs2: "rs1 = r2 # rs2"
    using d1 p1
    by (cases rs1) (simp_all add: generateValidationCode_def rs1 schema_has_digit_token
        step_first_digit [OF p1] replacement_def d1_def [symmetric])
  define d2 where "d2 = random_int r2 10"
  have d2: "d2 < 10" using rs random_int_less [of r2 10] by (simp add: rs1 rs2 d2_def)
  note p2 = digit_char_plain [OF d2]
  let ?c = "CHR ''A'' # CHR ''A'' # CHR ''-'' # digit_char d1 # digit_char d2 # ''%2''"
  have first: "replace_token ''[0-9]'' ''AA-[0-9][0-9]%2'' rs = Some (?c, rs2)"
    using d1 d2
    by (simp add: rs1 rs2 step_digits [OF p1 p2] replacement_def d1_def [symmetric] d2_def [symmetric] replace_token_absent
        schema_has_digit_token step_first_digit [OF p1] string_of_digit del: string_of_nat.simps)
  have meta: "meta_token CHR ''%'' ?c rs2 =
      (case draw_number (Some 2) rs2 of None \<Rightarrow> None
       | Some (number, rs3) \<Rightarrow> meta_token CHR ''%'' (replace ?c ''%2'' (string_of_nat number)) rs3)"
    by (subst meta_token.simps)
      (simp add: step_meta(1-3) [OF p1 p2 p2] to_number_2 Let_def
         del: string_of_nat.simps indexOf.simps)
  from gen have gen2: "(case meta_token CHR ''%'' ?c rs2 of None \<Rightarrow> None
      | Some (code4, rs4) \<Rightarrow>
     (case meta_token CHR ''('' code4 rs4 of
        None \<Rightarrow> None
      | Some (code5, rs5) \<Rightarrow> meta_token CHR '')'' code5 rs5)) = Some (code, rs')"
    by (simp add: generateValidationCode_def first replace_token_absent step_digits [OF p1 p2])
  then obtain d3 rs3 where dn: "draw_number (Some 2) rs2 = Some (d3, rs3)"
    by (cases "draw_number (Some 2) rs2") (auto simp: meta)
  from draw_number_props [OF dn] rs have d3: "d3 < 10" and ev: "\<not> remainder_not_zero d3 (Some 2)"
    by (simp_all add: rs1 rs2)
  note p3 = digit_char_plain [OF d3]
  have "code = ''AA-'' @ [digit_char d1, digit_char d2, digit_char d3]"
    using gen2 d3
    by (simp add: meta dn meta_absent string_of_digit step_meta(4-7) [OF p1 p2 p3]
        del: string_of_nat.simps)
  moreover from ev have "even d3"
    by (simp add: remainder_not_zero_def) presburger
  ultimately show ?thesis using d1 d2 d3 by blast
qed


lemma digit_char_digit: "n < 10 \<Longrightarrow> is_digit (digit_char n) \<and> digit_value (digit_char n) = int n"
  using less_10_cases [of n] by (auto simp: digit_char_def is_digit_def digit_value_def)

lemma draw_number_returns:
  "\<exists>r \<in> set rs. \<not> remainder_not_zero (random_int r 10) m \<Longrightarrow> draw_number m rs \<noteq> None"
  by (induction rs) (auto simp: Let_def)

lemma even_remainder: "even n \<Longrightarrow> \<not> remainder_not_zero n (Some 2)"
proof -
  assume "even n"
  then have "int n mod 2 = 0" by presburger
  then show ?thesis by (simp add: remainder_not_zero_def)
qed

lemma generate_returns:
  assumes rs: "\<forall>r \<in> set (r1 # r2 # rs2). unit_interval r"
    and ev: "\<exists>r \<in> set rs2. even (random_int r 10)"
  shows "generateValidationCode ''AA-[0-9][0-9]%2'' (r1 # r2 # rs2) \<noteq> None"
proof -
  define d1 where "d1 = random_int r1 10"
  have d1: "d1 < 10" using rs random_int_less [of r1 10] by (simp add: d1_def)
  note p1 = digit_char_plain [OF d1]
  define d2 where "d2 = random_int r2 10"
  have d2: "d2 < 10" using rs random_int_less [of r2 10] by (simp add: d2_def)
  note p2 = digit_char_plain [OF d2]
  let ?c = "CHR ''A'' # CHR ''A'' # CHR ''-'' # digit_char d1 # digit_char d2 # ''%2''"
  have first: "replace_token ''[0-9]'' ''AA-[0-9][0-9]%2'' (r1 # r2 # rs2) = Some (?c, rs2)"
    using d1 d2
    by (simp add: step_digits [OF p1 p2] replacement_def d1_def [symmetric] d2_def [symmetric] replace_token_absent
        schema_has_digit_token step_first_digit [OF p1] string_of_digit del: string_of_nat.simps)
  have meta: "meta_token CHR ''%'' ?c rs2 =
      (case draw_number (Some 2) rs2 of None \<Rightarrow> None
       | Some (number, rs3) \<Rightarrow> meta_token CHR ''%'' (replace ?c ''%2'' (string_of_nat number)) rs3)"
    by (subst meta_token.simps)
      (simp add: step_meta(1-3) [OF p1 p2 p2] to_number_2 Let_def
         del: string_of_nat.simps indexOf.simps)
  from ev have "\<exists>r \<in> set rs2. \<not> remainder_not_zero (random_int r 10) (Some 2)"
    using even_remainder by blast
  from draw_number_returns [OF this] obtain d3 rs3 where dn: "draw_number (Some 2) rs2 = Some (d3, rs3)"
    by auto
  from draw_number_props [OF dn] rs have d3: "d3 < 10" by simp
  note p3 = digit_char_plain [OF d3]
  show ?thesis
    using d3 
    by (simp add: generateValidationCode_def first replace_token_absent step_digits [OF p1 p2]
       meta dn meta_absent string_of_digit step_meta(4-7) [OF p1 p2 p3]
       del: string_of_nat.simps replace_token.simps)
qed

text \<open>
  C8 (as amended). On the template \<open>AA-[0-9][0-9]%2\<close> every run that returns gives
  \<open>AA-\<close> followed by three digits: one for each \<open>[0-9]\<close> token and one, divisible by 2,
  in place of \<open>%2\<close>. A run returns as soon as, after the two draws for the \<open>[0-9]\<close>
  tokens, some draw gives an even digit.
\<close>

theorem generate_three_digits:
  assumes "\<forall>r \<in> set rs. unit_interval r"
  shows "(\<forall>code rs'. generateValidationCode ''AA-[0-9][0-9]%2'' rs = Some (code, rs')
            \<longrightarrow> three_digit_code code)
       \<and> ((\<exists>r \<in> set (drop 2 rs). even (random_int r 10))
            \<longrightarrow> generateValidationCode ''AA-[0-9][0-9]%2'' rs \<noteq> None)"
proof (intro conjI allI impI)
  fix code rs'
  assume "generateValidationCode ''AA-[0-9][0-9]%2'' rs = Some (code, rs')"
  from generate_shape [OF this assms] obtain d1 d2 d3 where
    d: "d1 < 10" "d2 < 10" "d3 < 10" "even d3"
    and code: "code = ''AA-'' @ [digit_char d1, digit_char d2, digit_char d3]"
    by blast
  show "three_digit_code code"
    using d digit_char_digit [of d1] digit_char_digit [of d2] digit_char_digit [of d3]
    by (simp add: three_digit_code_def code)
next
  assume ev: "\<exists>r \<in> set (drop 2 rs). even (random_int r 10)"
  then obtain r1 r2 rs2 where rs: "rs = r1 # r2 # rs2"
    by (cases rs; cases "tl rs") auto
  from generate_returns [of r1 r2 rs2] assms ev
  show "generateValidationCode ''AA-[0-9][0-9]%2'' rs \<noteq> None"
    by (simp add: rs)
qed

lemma example_code: "generateValidationCode ''AA-[0-9][0-9]%2'' [3/10, 7/10, 1/10, 2/5] = Some (''AA-374'', [])"
  by (simp add: generateValidationCode_def str_includes_def replace_def replacement_def random_int_def digit_char_def meta_token.simps substr_def to_number_def is_whitespace_def is_digit_def digit_value_def remainder_not_zero_def)

theorem generate_three_digits_witness:
  "generateValidationCode ''AA-[0-9][0-9]%2'' [3/10, 7/10, 1/10, 2/5] = Some (''AA-374'', [])
   \<and> three_digit_code ''AA-374''"
proof -
  have "\<forall>r \<in> set [3/10, 7/10, 1/10, 2/5 :: rat]. unit_interval r"
    by (simp add: unit_interval_def)
  from generate_three_digits [OF this] example_code show ?thesis
    by blast
qed

text \<open>The draws 0.3, 0.7, 0.1, 0.4 give \<open>AA-374\<close>: six characters, three of them digits.\<close>

theorem generate_not_two_digits:
  "generateValidationCode ''AA-[0-9][0-9]%2'' [3/10, 7/10, 1/10, 2/5] = Some (''AA-374'', [])
   \<and> \<not> claimed_code_shape ''AA-374''"
  by (simp add: example_code claimed_code_shape_def)

subsection \<open>The store\<close>

text \<open>
  The documents the controllers read and write: a user holds the pin, the journal and
  the result (the stored test results and, once locked, the validation code); a course
  holds one configuration per language. \<open>findOne\<close> returns the first matching document
  and \<open>updateOne\<close> changes the first matching document. The three flags say which
  operations of the store fail with an I/O error.
\<close>

record user_result =
  res_tests :: "test_result list"
  res_validationCode :: "string option"

record user =
  usr_pin :: int
  usr_journal :: journal
  usr_result :: user_result

record course_language =
  cl_language :: string
  cl_config :: course_config

record course =
  crs_name :: string
  crs_configs :: "course_language list"

record database =
  db_users :: "user list"
  db_courses :: "course list"
  db_user_read_error :: bool
  db_course_read_error :: bool
  db_user_write_error :: bool

definition User_findOne :: "database \<Rightarrow> int \<Rightarrow> error + user option" where
  "User_findOne db bodyPin =
     (if db_user_read_error db then Inl StorageError
      else Inr (find (\<lambda>u. usr_pin u = bodyPin) (db_users db)))"

definition Course_findOne :: "database \<Rightarrow> string \<Rightarrow> error + course option" where
  "Course_findOne db name =
     (if db_course_read_error db then Inl StorageError
      else Inr (find (\<lambda>c. crs_name c = name) (db_courses db)))"

fun update_first :: "('a \<Rightarrow> bool) \<Rightarrow> ('a \<Rightarrow> 'a) \<Rightarrow> 'a list \<Rightarrow> 'a list" where
  "update_first P f [] = []"
| "update_first P f (x # xs) = (if P x then f x # xs else x # update_first P f xs)"

definition User_updateOne :: "database \<Rightarrow> int \<Rightarrow> (user \<Rightarrow> user) \<Rightarrow> error + database" where
  "User_updateOne db bodyPin f =
     (if db_user_write_error db then Inl StorageError
      else Inr (db\<lparr>db_users := update_first (\<lambda>u. usr_pin u = bodyPin) f (db_users db)\<rparr>))"

text \<open>The responses of the two controllers; \<open>Unhandled\<close> is an exception that leaves the
  controller with no response sent.\<close>

datatype response =
    Code200 string
  | Tests200 "test_result list"
  | Empty200
  | Error404
  | Error500
  | Unhandled error

text \<open>A truthy \<open>user.result.validationCode\<close>: present and not the empty string.\<close>

definition has_validationCode :: "user \<Rightarrow> bool" where
  "has_validationCode u =
     (case res_validationCode (usr_result u) of None \<Rightarrow> False | Some code \<Rightarrow> code \<noteq> [])"

subsection \<open>\<open>lock\<close>\<close>



subsection \<open>\<open>update\<close>\<close>

definition store_tests :: "test_result list \<Rightarrow> user \<Rightarrow> user" where
  "store_tests testResults u = u\<lparr>usr_result := (usr_result u)\<lparr>res_tests := testResults\<rparr>\<rparr>"

text \<open>
  The lock is checked right after the user lookup, before the course is read. The loop
  over \<open>course.configs\<close> has no \<open>break\<close>: the last configuration of the language is
  taken. \<open>None\<close> is a scorer that does not return.
\<close>

definition update :: "factory \<Rightarrow> database \<Rightarrow> int \<Rightarrow> (response \<times> database) option" where
  "update create db bodyPin =
     (case User_findOne db bodyPin of
        Inl err \<Rightarrow> Some (Error500, db)
      | Inr None \<Rightarrow> Some (Error404, db)
      | Inr (Some user) \<Rightarrow>
          if has_validationCode user then Some (Tests200 (res_tests (usr_result user)), db)
          else
     (case Course_findOne db (js_course (jr_structure (usr_journal user))) of
        Inl err \<Rightarrow> Some (Error500, db)
      | Inr None \<Rightarrow> Some (Error404, db)
      | Inr (Some course) \<Rightarrow>
     (case find (\<lambda>obj. cl_language obj = js_language (jr_structure (usr_journal user)))
             (rev (crs_configs course)) of
        None \<Rightarrow> Some (Error404, db)
      | Some obj \<Rightarrow>
          (case calculate create (cl_config obj) (usr_journal user) of
             None \<Rightarrow> None
           | Some (Inl err) \<Rightarrow> Some (Unhandled err, db)
           | Some (Inr None) \<Rightarrow> Some (Error404, db)
           | Some (Inr (Some testResults)) \<Rightarrow>
               (case User_updateOne db bodyPin (store_tests testResults) of
                  Inl err \<Rightarrow> Some (Error500, db)
                | Inr db' \<Rightarrow> Some (Empty200, db'))))))"


subsection \<open>An example store\<close>




subsection \<open>Properties of \<open>lock\<close> and \<open>update\<close>\<close>














































section \<open>Journal structure (local-storage.service.ts)\<close>

subsection \<open>Configuration file and structure\<close>

text \<open>
  The course configuration as the frontend reads it: the single tests (the same
  documents the backend scores), the info pages, the test groups and the sets. The
  \<open>select\<close> attribute of a group may be absent. An element of a set of the structure
  is a test or an info page; \<open>elementType\<close> is the constructor.
\<close>

record infopage =
  ip_id :: int
  ip_text :: string
  ip_belongs :: "int list"








subsection \<open>\<open>createJournalStructure\<close>\<close>













subsection \<open>\<open>prepareJournalStructureForSaving\<close>\<close>



subsection \<open>Properties of \<open>createJournalStructure\<close>\<close>























































end
